theory Spec2Isabelle
  imports Main
begin

section \<open>Outbound message dispatch: \<open>ts/session/sending/MessageQueue.ts\<close>\<close>

subsection \<open>Values of the program\<close>

text \<open>
  A \<open>PubKey\<close> is a class instance (\<open>new PubKey(d)\<close>, read through \<open>device.key\<close>).
  JavaScript compares objects by identity: in \<open>Map.get\<close>, and in lodash's \<open>_.xor\<close>
  (SameValueZero). The field \<open>ref\<close> is the address of the object, so two instances built
  from the same key string are different values here, as they are different objects there,
  and HOL equality on \<open>PubKey\<close> is object identity.
\<close>

record PubKey =
  ref :: nat
  key :: string

datatype MessageClass =
  ContentMessage | ClosedGroupMessage | SessionResetMessage | SyncMessage | OpenGroupMessage

text \<open>A message as this layer reads it: its \<open>identifier\<close> (the field \<open>msgIdentifier\<close>),
  the class that \<open>instanceof\<close> tests, and the \<open>groupId\<close> of a closed group message.\<close>

record Message =
  msgIdentifier :: string
  cls :: MessageClass
  groupId :: string

text \<open>What \<open>pendingMessageCache.getForDevice\<close> yields and \<open>MessageSender.send\<close> takes:
  a staged message together with the key of the device it is owed to.\<close>

record RawMessage =
  device :: string
  payload :: Message

datatype error = TypeError string | Error string

text \<open>A settled promise.\<close>

datatype 'a settled = Fulfilled 'a | Rejected error

text \<open>
  The collaborators whose code is outside this file, as parameters:
  \<open>message.canSync(arg)\<close> (receiver, optional argument), \<open>SyncMessage.from\<close>,
  \<open>SessionProtocol.hasSession\<close>, \<open>ConversationController.get(id).isMediumGroup()\<close>,
  \<open>Data.getPairedDevicesFor\<close> and \<open>textsecure.storage.user.getNumber()\<close>.
\<close>

record Env =
  canSync :: "Message \<Rightarrow> Message option \<Rightarrow> bool"
  SyncMessage_from :: "Message \<Rightarrow> Message"
  hasSession :: "PubKey \<Rightarrow> bool"
  isMediumGroup :: "string \<Rightarrow> bool"
  getPairedDevicesFor :: "string \<Rightarrow> string list"
  getNumber :: string

text \<open>
  The state of a \<open>MessageQueue\<close> and of what it acts on:
  \<^item> \<open>pendingMessageCache\<close>: the staged messages, oldest first;
  \<^item> \<open>jobQueues\<close>: the \<open>Map<PubKey, JobQueue>\<close>, in insertion order, each value the
    address of a \<open>JobQueue\<close> object;
  \<^item> \<open>jobs\<close>: the store of \<open>JobQueue\<close> objects, each the jobs outstanding on it (a job
    is the closure \<open>async () => MessageSender.send(message)\<close>, kept as its \<open>message\<close>);
  \<^item> \<open>sessionRequests\<close>: the calls of \<open>SessionProtocol.sendSessionRequestIfNeeded\<close>;
  \<^item> \<open>sent\<close>: the calls of \<open>MessageSender.send\<close>;
  \<^item> \<open>nextRef\<close>: the next free object address.
\<close>

record MessageQueue =
  pendingMessageCache :: "RawMessage list"
  jobQueues :: "(PubKey \<times> nat) list"
  jobs :: "nat \<Rightarrow> RawMessage list"
  sessionRequests :: "PubKey list"
  sent :: "RawMessage list"
  nextRef :: nat

subsection \<open>Library and collaborator operations\<close>

text \<open>\<open>new PubKey(d)\<close>: a fresh object.\<close>

definition newPubKey :: "string \<Rightarrow> MessageQueue \<Rightarrow> PubKey \<times> MessageQueue" where
  "newPubKey d s = (\<lparr>ref = nextRef s, key = d\<rparr>, s\<lparr>nextRef := Suc (nextRef s)\<rparr>)"

text \<open>\<open>ds.map(d => new PubKey(d))\<close>.\<close>

fun newPubKeys :: "string list \<Rightarrow> MessageQueue \<Rightarrow> PubKey list \<times> MessageQueue" where
  "newPubKeys [] s = ([], s)"
| "newPubKeys (d # ds) s =
     (case newPubKey d s of (p, s1) \<Rightarrow>
        (case newPubKeys ds s1 of (ps, s2) \<Rightarrow> (p # ps, s2)))"

text \<open>
  lodash: \<open>baseUniq\<close> keeps the first occurrence of every value, \<open>baseDifference\<close> the
  values of the first array that are not in the second, and \<open>_.xor(a, b)\<close> is
  \<open>baseUniq\<close> of \<open>a\<close> without \<open>b\<close> followed by \<open>b\<close> without \<open>a\<close>. An argument that is
  not array-like (\<open>undefined\<close>, here \<open>None\<close>) is dropped, and \<open>_.xor\<close> of one array is
  its \<open>baseUniq\<close>. Values are compared with SameValueZero, which on objects is identity.
\<close>

definition baseUniq :: "'a list \<Rightarrow> 'a list" where
  "baseUniq xs = foldl (\<lambda>res x. if x \<in> set res then res else res @ [x]) [] xs"

definition baseDifference :: "'a list \<Rightarrow> 'a list \<Rightarrow> 'a list" where
  "baseDifference xs ys = filter (\<lambda>x. x \<notin> set ys) xs"

definition xor_lodash :: "'a list \<Rightarrow> 'a list option \<Rightarrow> 'a list" where
  "xor_lodash xs other =
     (case other of
        None \<Rightarrow> baseUniq xs
      | Some ys \<Rightarrow> baseUniq (baseDifference xs ys @ baseDifference ys xs))"

text \<open>
  Modelled from the spec: the Pending Store (\<open>PendingMessageCache\<close>, whose code is not in
  the sources). \<open>add\<close> is the spec's \<open>stage\<close>, an idempotent append per (device,
  message identifier); \<open>getForDevice\<close> is \<open>drain\<close>, the messages staged for a device,
  oldest first, none removed; \<open>remove\<close> is \<open>acknowledge\<close>, a no-op on an entry already
  removed. Devices are compared by key.
\<close>

definition same_entry :: "RawMessage \<Rightarrow> RawMessage \<Rightarrow> bool" where
  "same_entry a b \<longleftrightarrow> device a = device b \<and> msgIdentifier (payload a) = msgIdentifier (payload b)"

definition toRawMessage :: "PubKey \<Rightarrow> Message \<Rightarrow> RawMessage" where
  "toRawMessage dev m = \<lparr>device = key dev, payload = m\<rparr>"

definition add :: "PubKey \<Rightarrow> Message \<Rightarrow> RawMessage list \<Rightarrow> RawMessage list" where
  "add dev m cache =
     (if list_ex (same_entry (toRawMessage dev m)) cache then cache
      else cache @ [toRawMessage dev m])"

definition getForDevice :: "RawMessage list \<Rightarrow> PubKey \<Rightarrow> RawMessage list" where
  "getForDevice cache dev = filter (\<lambda>r. device r = key dev) cache"

definition remove :: "RawMessage \<Rightarrow> RawMessage list \<Rightarrow> RawMessage list" where
  "remove r cache = filter (\<lambda>x. \<not> same_entry r x) cache"

text \<open>
  Modelled from the spec: the per-device Dispatch Queue (\<open>JobQueue\<close>, whose code is not in
  the sources): the jobs outstanding on one queue, in submission order, a job known by
  the identifier of its message; a settled job leaves the queue.
\<close>

definition has :: "RawMessage list \<Rightarrow> string \<Rightarrow> bool" where
  "has q i = list_ex (\<lambda>j. msgIdentifier (payload j) = i) q"

definition addJob :: "RawMessage list \<Rightarrow> RawMessage \<Rightarrow> RawMessage list" where
  "addJob q j = q @ [j]"

definition settleJob :: "RawMessage list \<Rightarrow> RawMessage \<Rightarrow> RawMessage list" where
  "settleJob q j = filter (\<lambda>x. msgIdentifier (payload x) \<noteq> msgIdentifier (payload j)) q"

text \<open>\<open>SessionProtocol.sendSessionRequestIfNeeded(device)\<close>: recorded.\<close>

definition sendSessionRequestIfNeeded :: "PubKey \<Rightarrow> MessageQueue \<Rightarrow> MessageQueue" where
  "sendSessionRequestIfNeeded dev s = s\<lparr>sessionRequests := sessionRequests s @ [dev]\<rparr>"

text \<open>\<open>p.then(f)\<close> and \<open>p.catch(g)\<close> on a settled promise, with handlers that return
  nothing: the state after the handler, and how the new promise settles.\<close>

definition promise_then ::
  "'a settled \<Rightarrow> ('a \<Rightarrow> 's \<Rightarrow> 's) \<Rightarrow> 's \<Rightarrow> 's \<times> unit settled" where
  "promise_then p f s =
     (case p of Fulfilled v \<Rightarrow> (f v s, Fulfilled ()) | Rejected e \<Rightarrow> (s, Rejected e))"

definition promise_catch ::
  "'s \<times> unit settled \<Rightarrow> (error \<Rightarrow> 's \<Rightarrow> 's) \<Rightarrow> 's \<times> unit settled" where
  "promise_catch r g =
     (case r of (s, Fulfilled v) \<Rightarrow> (s, Fulfilled v) | (s, Rejected e) \<Rightarrow> (g e s, Fulfilled ()))"

subsection \<open>The methods of \<open>MessageQueue\<close>\<close>

text \<open>
  Every method is \<open>async\<close>; the model runs each call to its end before the next one
  starts (the callbacks of a \<open>forEach\<close> in the order of the array).
\<close>

text \<open>\<open>getJobQueue\<close>: \<open>this.jobQueues.get(device)\<close> finds the entry whose key is the same
  object; a missing entry gets a new \<open>JobQueue\<close>.\<close>

definition getJobQueue :: "PubKey \<Rightarrow> MessageQueue \<Rightarrow> nat \<times> MessageQueue" where
  "getJobQueue dev s =
     (case map_of (jobQueues s) dev of
        Some queue \<Rightarrow> (queue, s)
      | None \<Rightarrow>
          (nextRef s,
           s\<lparr>jobQueues := jobQueues s @ [(dev, nextRef s)],
             jobs := (jobs s)(nextRef s := []),
             nextRef := Suc (nextRef s)\<rparr>))"

text \<open>The body of the \<open>messages.forEach\<close> of \<open>processPending\<close>: the job is added unless
  the queue has the identifier of the message.\<close>

definition submit :: "nat \<Rightarrow> RawMessage \<Rightarrow> MessageQueue \<Rightarrow> MessageQueue" where
  "submit jobQueue message s =
     (if \<not> has (jobs s jobQueue) (msgIdentifier (payload message))
      then s\<lparr>jobs := (jobs s)(jobQueue := addJob (jobs s jobQueue) message)\<rparr>
      else s)"

definition processPending :: "Env \<Rightarrow> PubKey \<Rightarrow> MessageQueue \<Rightarrow> MessageQueue" where
  "processPending env dev s =
     (let messages = getForDevice (pendingMessageCache s) dev;
          hasSession = Env.hasSession env dev;
          isMediumGroup = Env.isMediumGroup env (key dev)
      in if \<not> isMediumGroup \<and> \<not> hasSession
         then sendSessionRequestIfNeeded dev s
         else (case getJobQueue dev s of
                 (jobQueue, s1) \<Rightarrow> fold (submit jobQueue) messages s1))"

text \<open>
  A job of queue \<open>jobQueue\<close> runs: \<open>MessageSender.send(message)\<close> is called and settles
  as \<open>outcome\<close>; the job leaves the queue; then the handlers of \<open>processPending\<close> run,
  \<open>promise.then(() => remove(message)).catch(() => {})\<close>. The result is the new state and
  how the promise of that chain settles.
\<close>

definition jobSettled ::
  "nat \<Rightarrow> RawMessage \<Rightarrow> unit settled \<Rightarrow> MessageQueue \<Rightarrow> MessageQueue \<times> unit settled" where
  "jobSettled jobQueue message outcome s =
     promise_catch
       (promise_then outcome
          (\<lambda>_ t. t\<lparr>pendingMessageCache := remove message (pendingMessageCache t)\<rparr>)
          (s\<lparr>sent := sent s @ [message],
             jobs := (jobs s)(jobQueue := settleJob (jobs s jobQueue) message)\<rparr>))
       (\<lambda>_ t. t)"

definition queue :: "Env \<Rightarrow> PubKey \<Rightarrow> Message \<Rightarrow> MessageQueue \<Rightarrow> MessageQueue" where
  "queue env dev message s =
     (if cls message = SessionResetMessage then s
      else processPending env dev
             (s\<lparr>pendingMessageCache := add dev message (pendingMessageCache s)\<rparr>))"

definition getOurDevices :: "Env \<Rightarrow> MessageQueue \<Rightarrow> PubKey list \<times> MessageQueue" where
  "getOurDevices env s =
     (let ourKey = getNumber env;
          ourLinked = getPairedDevicesFor env ourKey
      in newPubKeys ourLinked s)"

text \<open>\<open>sendSyncMessage\<close>: \<open>None\<close> is the \<open>undefined\<close> of the bare \<open>return\<close>.\<close>

definition sendSyncMessage ::
  "Env \<Rightarrow> Message \<Rightarrow> MessageQueue \<Rightarrow> PubKey list option \<times> MessageQueue" where
  "sendSyncMessage env message s =
     (let syncMessage = SyncMessage_from env message
      in if \<not> canSync env syncMessage None then (None, s)
         else (case getOurDevices env s of
                 (ourDevices, s1) \<Rightarrow>
                   (Some ourDevices, fold (\<lambda>dev. queue env dev message) ourDevices s1)))"

text \<open>The first argument of \<open>sendMessageToDevices\<close> as a caller passes it: an array, or
  the number that \<open>sendToGroup\<close> passes. Spreading a number (\<open>[...5]\<close>) throws.\<close>

datatype devices_arg = Array "PubKey list" | Number int

definition spread :: "devices_arg \<Rightarrow> error + PubKey list" where
  "spread a =
     (case a of Array ds \<Rightarrow> Inr ds
      | Number n \<Rightarrow> Inl (TypeError ''devices is not iterable''))"

definition sendMessageToDevices ::
  "Env \<Rightarrow> devices_arg \<Rightarrow> Message \<Rightarrow> MessageQueue \<Rightarrow> error + MessageQueue" where
  "sendMessageToDevices env devices message s =
     (case spread devices of
        Inl e \<Rightarrow> Inl e
      | Inr currentDevices \<Rightarrow>
          (if canSync env message (Some message)
           then (let syncMessage = SyncMessage_from env message
                 in case sendSyncMessage env syncMessage s of
                      (ourDevices, s1) \<Rightarrow>
                        Inr (fold (\<lambda>dev. queue env dev message)
                               (xor_lodash currentDevices ourDevices) s1))
           else Inr (fold (\<lambda>dev. queue env dev message) currentDevices s)))"

definition sendUsingMultiDevice ::
  "Env \<Rightarrow> PubKey \<Rightarrow> Message \<Rightarrow> MessageQueue \<Rightarrow> error + MessageQueue" where
  "sendUsingMultiDevice env user message s =
     (let userLinked = getPairedDevicesFor env (key user)
      in case newPubKeys userLinked s of
           (userDevices, s1) \<Rightarrow> sendMessageToDevices env (Array userDevices) message s1)"

definition send :: "Env \<Rightarrow> PubKey \<Rightarrow> Message \<Rightarrow> MessageQueue \<Rightarrow> error + MessageQueue" where
  "send env dev message s = sendMessageToDevices env (Array [dev]) message s"

text \<open>\<open>sendToGroup\<close>: the closed group branch passes \<open>recipients = 5\<close>; the open group
  branch is empty.\<close>

definition sendToGroup :: "Env \<Rightarrow> Message \<Rightarrow> MessageQueue \<Rightarrow> error + MessageQueue" where
  "sendToGroup env message s =
     (if cls message \<noteq> OpenGroupMessage \<and> cls message \<noteq> ClosedGroupMessage then Inr s
      else (case (if cls message = ClosedGroupMessage
                  then sendMessageToDevices env (Number 5) message s
                  else Inr s) of
              Inl e \<Rightarrow> Inl e
            | Inr s1 \<Rightarrow> (if cls message = OpenGroupMessage then Inr s1 else Inr s1)))"

section \<open>Open group identifiers: \<open>ts/opengroup/utils/OpenGroupUtils.ts\<close>\<close>

subsection \<open>Regular expressions\<close>

text \<open>
  The patterns of the file use literals, character classes, grouping, alternation,
  \<open>?\<close>, \<open>*\<close>, \<open>+\<close> and \<open>{2,64}\<close>, no anchors and no flags that matter. A class is a
  list of ranges of character codes.
\<close>

datatype regex =
  Epsilon | Lit char | Cls "(char \<times> char) list" | Seq regex regex | Alt regex regex
  | Star regex | Rep nat nat regex

definition in_class :: "(char \<times> char) list \<Rightarrow> char \<Rightarrow> bool" where
  "in_class rs c =
     list_ex (\<lambda>(lo, hi). (of_char lo :: nat) \<le> of_char c \<and> (of_char c :: nat) \<le> of_char hi) rs"

text \<open>
  A backtracking matcher tries every way to match; \<open>ends r s\<close> lists what is left of
  \<open>s\<close> after each match of \<open>r\<close> that starts at its first character. \<open>iterate\<close> is
  \<open>*\<close> (an iteration that consumes nothing is not repeated, as in ECMAScript), and
  \<open>repeat hi lo\<close> is \<open>{lo,hi}\<close>.
\<close>

primrec iterate :: "nat \<Rightarrow> (string \<Rightarrow> string list) \<Rightarrow> string \<Rightarrow> string list" where
  "iterate 0 f s = [s]"
| "iterate (Suc n) f s =
     concat (map (iterate n f) (filter (\<lambda>t. length t < length s) (f s))) @ [s]"

primrec repeat :: "nat \<Rightarrow> nat \<Rightarrow> (string \<Rightarrow> string list) \<Rightarrow> string \<Rightarrow> string list" where
  "repeat 0 lo f s = (if lo = 0 then [s] else [])"
| "repeat (Suc hi) lo f s =
     concat (map (repeat hi (lo - 1) f) (f s)) @ (if lo = 0 then [s] else [])"

primrec ends :: "regex \<Rightarrow> string \<Rightarrow> string list" where
  "ends Epsilon s = [s]"
| "ends (Lit c) s = (case s of [] \<Rightarrow> [] | x # xs \<Rightarrow> if x = c then [xs] else [])"
| "ends (Cls rs) s = (case s of [] \<Rightarrow> [] | x # xs \<Rightarrow> if in_class rs x then [xs] else [])"
| "ends (Seq a b) s = concat (map (ends b) (ends a s))"
| "ends (Alt a b) s = ends a s @ ends b s"
| "ends (Star a) s = iterate (length s) (ends a) s"
| "ends (Rep lo hi a) s = repeat hi lo (ends a) s"

text \<open>A match of \<open>r\<close> starts at the first character of \<open>s\<close>.\<close>

definition match_at :: "regex \<Rightarrow> string \<Rightarrow> bool" where
  "match_at r s \<longleftrightarrow> ends r s \<noteq> []"

text \<open>\<open>regex.test(s)\<close>, and whether \<open>s.match(regex)\<close> is not \<open>null\<close>: a match starts
  at some position of \<open>s\<close>.\<close>

fun regexp_test :: "regex \<Rightarrow> string \<Rightarrow> bool" where
  "regexp_test r [] = match_at r []"
| "regexp_test r (c # cs) = (match_at r (c # cs) \<or> regexp_test r cs)"

definition string_match :: "string \<Rightarrow> regex \<Rightarrow> bool" where
  "string_match s r = regexp_test r s"

definition Opt :: "regex \<Rightarrow> regex" where
  "Opt r = Alt r Epsilon"

definition Plus :: "regex \<Rightarrow> regex" where
  "Plus r = Seq r (Star r)"

fun str :: "string \<Rightarrow> regex" where
  "str [] = Epsilon"
| "str (c # cs) = Seq (Lit c) (str cs)"

subsection \<open>The patterns\<close>

text \<open>\<^verbatim>\<open>(https?://)?\<close>\<close>

definition protocolRegex :: regex where
  "protocolRegex = Opt (Seq (str ''http'') (Seq (Opt (Lit CHR ''s'')) (str ''://'')))"

text \<open>\<^verbatim>\<open>[a-zA-Z0-9]\<close> and \<^verbatim>\<open>[a-zA-Z0-9-]\<close>\<close>

definition alnum :: regex where
  "alnum = Cls [(CHR ''a'', CHR ''z''), (CHR ''A'', CHR ''Z''), (CHR ''0'', CHR ''9'')]"

definition alnumdash :: regex where
  "alnumdash =
     Cls [(CHR ''a'', CHR ''z''), (CHR ''A'', CHR ''Z''), (CHR ''0'', CHR ''9''),
          (CHR ''-'', CHR ''-'')]"

text \<open>\<^verbatim>\<open>([a-zA-Z0-9]|[a-zA-Z0-9][a-zA-Z0-9-]*[a-zA-Z0-9])\<close>, the group that
  \<open>hostnameRegex\<close> uses twice:
  \<^verbatim>\<open>((label)\.)*(label)\<close>\<close>

definition label :: regex where
  "label = Alt alnum (Seq alnum (Seq (Star alnumdash) alnum))"

definition hostnameRegex :: regex where
  "hostnameRegex = Seq (Star (Seq label (Lit CHR ''.''))) label"

text \<open>\<^verbatim>\<open>(:[0-9]+)?\<close>\<close>

definition portRegex :: regex where
  "portRegex = Opt (Seq (Lit CHR '':'') (Plus (Cls [(CHR ''0'', CHR ''9'')])))"

text \<open>\<^verbatim>\<open>[0-9a-z_]{2,64}\<close>\<close>

definition roomIdChars :: "(char \<times> char) list" where
  "roomIdChars = [(CHR ''0'', CHR ''9''), (CHR ''a'', CHR ''z''), (CHR ''_'', CHR ''_'')]"

definition roomIdV2Regex :: regex where
  "roomIdV2Regex = Rep 2 64 (Cls roomIdChars)"

definition openGroupV2ServerUrlRegex :: regex where
  "openGroupV2ServerUrlRegex = Seq protocolRegex (Seq hostnameRegex portRegex)"

definition openGroupPrefix :: string where
  "openGroupPrefix = ''publicChat:''"

definition openGroupV2ConversationIdRegex :: regex where
  "openGroupV2ConversationIdRegex =
     Seq (str openGroupPrefix) (Seq roomIdV2Regex (Seq (Lit CHR ''@'')
       (Seq protocolRegex (Seq hostnameRegex portRegex))))"

subsection \<open>String operations\<close>

text \<open>\<open>s.indexOf(c)\<close>: the first position of \<open>c\<close>, or \<open>-1\<close>.\<close>

fun indexOf :: "string \<Rightarrow> char \<Rightarrow> int" where
  "indexOf [] c = -1"
| "indexOf (x # xs) c =
     (if x = c then 0 else (let i = indexOf xs c in if i < 0 then -1 else i + 1))"

text \<open>\<open>s.slice(start, end)\<close> and \<open>s.slice(start)\<close> (\<open>None\<close>): a negative index counts
  from the end, both are clamped to the string, and an empty range gives \<open>''''\<close>.\<close>

definition slice :: "string \<Rightarrow> int \<Rightarrow> int option \<Rightarrow> string" where
  "slice s start end =
     (let len = int (length s);
          from = (if start < 0 then max (len + start) 0 else min start len);
          to = (case end of None \<Rightarrow> len
                | Some e \<Rightarrow> if e < 0 then max (len + e) 0 else min e len)
      in take (nat (to - from)) (drop (nat from) s))"

subsection \<open>The functions\<close>

record OpenGroupRequestCommonType =
  serverUrl :: string
  roomId :: string

definition getOpenGroupV2ConversationId :: "string \<Rightarrow> string \<Rightarrow> error + string" where
  "getOpenGroupV2ConversationId serverUrl roomId =
     (if \<not> string_match roomId roomIdV2Regex
      then Inl (Error ''getOpenGroupV2ConversationId: Invalid roomId'')
      else if \<not> string_match serverUrl openGroupV2ServerUrlRegex
      then Inl (Error ''getOpenGroupV2ConversationId: Invalid serverUrl'')
      else Inr (openGroupPrefix @ roomId @ ''@'' @ serverUrl))"
  for serverUrl roomId

definition isOpenGroupV2 :: "string \<Rightarrow> bool" where
  "isOpenGroupV2 conversationId = regexp_test openGroupV2ConversationIdRegex conversationId"

definition getOpenGroupV2FromConversationId ::
  "string \<Rightarrow> error + OpenGroupRequestCommonType" where
  "getOpenGroupV2FromConversationId conversationId =
     (if isOpenGroupV2 conversationId
      then (let atIndex = indexOf conversationId CHR ''@'';
                roomId = slice conversationId (int (length openGroupPrefix)) (Some atIndex);
                serverUrl = slice conversationId (atIndex + 1) None
            in Inr \<lparr>serverUrl = serverUrl, roomId = roomId\<rparr>)
      else Inl (Error ''Not a v2 open group convo id''))"

section \<open>Inputs for the examples\<close>

text \<open>A new \<open>MessageQueue\<close> with nothing staged, when \<open>n\<close> objects exist already.\<close>

definition initial :: "nat \<Rightarrow> MessageQueue" where
  "initial n =
     \<lparr>pendingMessageCache = [], jobQueues = [], jobs = (\<lambda>_. []), sessionRequests = [],
      sent = [], nextRef = n\<rparr>"

definition msg :: "string \<Rightarrow> Message" where
  "msg i = \<lparr>msgIdentifier = i, cls = ContentMessage, groupId = ''''\<rparr>"

text \<open>Every device has a session; a user's only device has the user's key; nothing
  syncs.\<close>

definition plainEnv :: Env where
  "plainEnv =
     \<lparr>canSync = (\<lambda>m arg. False),
      SyncMessage_from = (\<lambda>m. m\<lparr>msgIdentifier := ''sync:'' @ msgIdentifier m, cls := SyncMessage\<rparr>),
      hasSession = (\<lambda>d. True),
      isMediumGroup = (\<lambda>k. False),
      getPairedDevicesFor = (\<lambda>k. [k]),
      getNumber = ''us''\<rparr>"




text \<open>No device has a session.\<close>

definition noSessionEnv :: Env where
  "noSessionEnv = plainEnv\<lparr>hasSession := (\<lambda>d. False)\<rparr>"

definition D1 :: PubKey where
  "D1 = \<lparr>ref = 0, key = ''D1''\<rparr>"



text \<open>Every job outstanding on any queue: the device and the identifier of its
  message.\<close>

definition outstanding :: "MessageQueue \<Rightarrow> (string \<times> string) list" where
  "outstanding s =
     concat (map (\<lambda>(d, q). map (\<lambda>j. (device j, msgIdentifier (payload j))) (jobs s q))
               (jobQueues s))"

section \<open>Properties of the dispatch layer\<close>

subsection \<open>What leaves the pending store alone\<close>









subsection \<open>\<open>_.xor\<close>\<close>




subsection \<open>The claims\<close>










lemma plain_send:
  "sendMessageToDevices plainEnv (Array ds) m s = Inr (fold (\<lambda>dev. queue plainEnv dev m) ds s)"
  by (simp add: sendMessageToDevices_def spread_def plainEnv_def)

lemma first_send:
  "sendUsingMultiDevice plainEnv \<lparr>ref = 0, key = ''alice''\<rparr> (msg ''m1'') (initial 1) =
   Inr \<lparr>pendingMessageCache = [\<lparr>device = ''alice'', payload = msg ''m1''\<rparr>],
        jobQueues = [(\<lparr>ref = 1, key = ''alice''\<rparr>, 2)],
        jobs = (\<lambda>_. [])(2 := [\<lparr>device = ''alice'', payload = msg ''m1''\<rparr>]),
        sessionRequests = [], sent = [], nextRef = 3\<rparr>"
proof -
  have n: "newPubKeys (getPairedDevicesFor plainEnv (key \<lparr>ref = 0, key = ''alice''\<rparr>)) (initial 1) =
      ([\<lparr>ref = 1, key = ''alice''\<rparr>], (initial 1)\<lparr>nextRef := 2\<rparr>)"
    by (simp add: newPubKey_def initial_def plainEnv_def)
  have q: "queue plainEnv \<lparr>ref = 1, key = ''alice''\<rparr> (msg ''m1'') ((initial 1)\<lparr>nextRef := 2\<rparr>) =
     \<lparr>pendingMessageCache = [\<lparr>device = ''alice'', payload = msg ''m1''\<rparr>],
      jobQueues = [(\<lparr>ref = 1, key = ''alice''\<rparr>, 2)],
      jobs = (\<lambda>_. [])(2 := [\<lparr>device = ''alice'', payload = msg ''m1''\<rparr>]),
      sessionRequests = [], sent = [], nextRef = 3\<rparr>"
    by (simp add: queue_def processPending_def getJobQueue_def submit_def add_def
        getForDevice_def toRawMessage_def same_entry_def has_def addJob_def plainEnv_def msg_def
        initial_def)
  show ?thesis
    by (simp only: sendUsingMultiDevice_def Let_def n prod.case plain_send fold_simps q id_apply
        comp_apply)
qed

lemma second_send:
  "sendUsingMultiDevice plainEnv \<lparr>ref = 0, key = ''alice''\<rparr> (msg ''m2'')
     \<lparr>pendingMessageCache = [\<lparr>device = ''alice'', payload = msg ''m1''\<rparr>],
      jobQueues = [(\<lparr>ref = 1, key = ''alice''\<rparr>, 2)],
      jobs = (\<lambda>_. [])(2 := [\<lparr>device = ''alice'', payload = msg ''m1''\<rparr>]),
      sessionRequests = [], sent = [], nextRef = 3\<rparr> =
   Inr \<lparr>pendingMessageCache =
          [\<lparr>device = ''alice'', payload = msg ''m1''\<rparr>, \<lparr>device = ''alice'', payload = msg ''m2''\<rparr>],
        jobQueues = [(\<lparr>ref = 1, key = ''alice''\<rparr>, 2), (\<lparr>ref = 3, key = ''alice''\<rparr>, 4)],
        jobs = ((\<lambda>_. [])(2 := [\<lparr>device = ''alice'', payload = msg ''m1''\<rparr>]))
                 (4 := [\<lparr>device = ''alice'', payload = msg ''m1''\<rparr>,
                        \<lparr>device = ''alice'', payload = msg ''m2''\<rparr>]),
        sessionRequests = [], sent = [], nextRef = 5\<rparr>"
proof -
  let ?s = "\<lparr>pendingMessageCache = [\<lparr>device = ''alice'', payload = msg ''m1''\<rparr>],
      jobQueues = [(\<lparr>ref = 1, key = ''alice''\<rparr>, 2)],
      jobs = (\<lambda>_. [])(2 := [\<lparr>device = ''alice'', payload = msg ''m1''\<rparr>]),
      sessionRequests = [], sent = [], nextRef = 3\<rparr>"
  have n: "newPubKeys (getPairedDevicesFor plainEnv (key \<lparr>ref = 0, key = ''alice''\<rparr>)) ?s =
      ([\<lparr>ref = 3, key = ''alice''\<rparr>], ?s\<lparr>nextRef := 4\<rparr>)"
    by (simp add: newPubKey_def plainEnv_def)
  have q: "queue plainEnv \<lparr>ref = 3, key = ''alice''\<rparr> (msg ''m2'') (?s\<lparr>nextRef := 4\<rparr>) =
     \<lparr>pendingMessageCache =
        [\<lparr>device = ''alice'', payload = msg ''m1''\<rparr>, \<lparr>device = ''alice'', payload = msg ''m2''\<rparr>],
      jobQueues = [(\<lparr>ref = 1, key = ''alice''\<rparr>, 2), (\<lparr>ref = 3, key = ''alice''\<rparr>, 4)],
      jobs = ((\<lambda>_. [])(2 := [\<lparr>device = ''alice'', payload = msg ''m1''\<rparr>]))
               (4 := [\<lparr>device = ''alice'', payload = msg ''m1''\<rparr>,
                      \<lparr>device = ''alice'', payload = msg ''m2''\<rparr>]),
      sessionRequests = [], sent = [], nextRef = 5\<rparr>"
    by (simp add: queue_def processPending_def getJobQueue_def submit_def add_def
        getForDevice_def toRawMessage_def same_entry_def has_def addJob_def plainEnv_def msg_def)
  show ?thesis
    by (simp only: sendUsingMultiDevice_def Let_def n prod.case plain_send fold_simps q id_apply
        comp_apply)
qed

text \<open>
  C2, the code at the failing input: two calls of \<open>sendUsingMultiDevice\<close> for the same
  user, the second while the job of the first is outstanding. Each call builds its own
  \<open>PubKey\<close>, so the second gets a queue of its own, which has no job, and the message of
  the first call is submitted again: two jobs are outstanding for device \<open>alice\<close> and
  identifier \<open>m1\<close>.
\<close>

theorem processPending_duplicate_job:
  "(case sendUsingMultiDevice plainEnv \<lparr>ref = 0, key = ''alice''\<rparr> (msg ''m1'') (initial 1) of
      Inl e \<Rightarrow> None
    | Inr s1 \<Rightarrow>
        (case sendUsingMultiDevice plainEnv \<lparr>ref = 0, key = ''alice''\<rparr> (msg ''m2'') s1 of
           Inl e \<Rightarrow> None
         | Inr s2 \<Rightarrow> Some (outstanding s2)))
   = Some [(''alice'', ''m1''), (''alice'', ''m1''), (''alice'', ''m2'')]"
proof -
  have "outstanding
     \<lparr>pendingMessageCache =
        [\<lparr>device = ''alice'', payload = msg ''m1''\<rparr>, \<lparr>device = ''alice'', payload = msg ''m2''\<rparr>],
      jobQueues = [(\<lparr>ref = 1, key = ''alice''\<rparr>, 2), (\<lparr>ref = 3, key = ''alice''\<rparr>, 4)],
      jobs = ((\<lambda>_. [])(2 := [\<lparr>device = ''alice'', payload = msg ''m1''\<rparr>]))
               (4 := [\<lparr>device = ''alice'', payload = msg ''m1''\<rparr>,
                      \<lparr>device = ''alice'', payload = msg ''m2''\<rparr>]),
      sessionRequests = [], sent = [], nextRef = 5\<rparr> =
    [(''alice'', ''m1''), (''alice'', ''m1''), (''alice'', ''m2'')]"
    by (simp add: outstanding_def msg_def)
  then show ?thesis
    by (simp only: first_send second_send sum.case)
qed

text \<open>
  C3. For a device that is no medium group and has no session, \<open>processPending\<close> only
  records one call of \<open>sendSessionRequestIfNeeded\<close> for the device: the pending store,
  the map of job queues and every job queue are as they were.
\<close>

theorem processPending_session_gate:
  "\<not> isMediumGroup env (key dev) \<Longrightarrow> \<not> hasSession env dev \<Longrightarrow>
   processPending env dev s = s\<lparr>sessionRequests := sessionRequests s @ [dev]\<rparr>"
  by (simp add: processPending_def sendSessionRequestIfNeeded_def)

text \<open>C3, witness: the scenario of the spec, \<open>m1\<close> and \<open>m2\<close> (identifiers \<open>a\<close> and \<open>b\<close>)
  staged for \<open>D1\<close>, which has no session.\<close>

theorem processPending_session_gate_witness:
  "\<not> isMediumGroup noSessionEnv (key D1) \<and> \<not> hasSession noSessionEnv D1 \<and>
   processPending noSessionEnv D1
     ((initial 2)\<lparr>pendingMessageCache := [toRawMessage D1 (msg ''a''), toRawMessage D1 (msg ''b'')]\<rparr>)
   = (initial 2)\<lparr>pendingMessageCache := [toRawMessage D1 (msg ''a''), toRawMessage D1 (msg ''b'')],
                 sessionRequests := [D1]\<rparr>"
proof -
  have h1: "\<not> isMediumGroup noSessionEnv (key D1)"
    and h2: "\<not> hasSession noSessionEnv D1"
    by (simp_all add: noSessionEnv_def plainEnv_def)
  show ?thesis
    using processPending_session_gate [OF h1 h2] h1 h2
    by (simp add: initial_def)
qed

text \<open>
  C4. When the job of \<open>message\<close> settles: after a delivery that succeeded the pending
  store is the one before without the entry of the device and identifier of \<open>message\<close>,
  every other entry kept in its place, so no entry of that device and identifier is
  staged; after a delivery that failed the pending store is as it was. Either way the
  promise of the chain is fulfilled: nothing is rethrown.
\<close>

theorem jobSettled_acknowledge_or_keep:
  "pendingMessageCache (fst (jobSettled q message (Fulfilled ()) s)) =
     filter (\<lambda>x. \<not> same_entry message x) (pendingMessageCache s) \<and>
   \<not> list_ex (same_entry message)
       (pendingMessageCache (fst (jobSettled q message (Fulfilled ()) s))) \<and>
   snd (jobSettled q message (Fulfilled ()) s) = Fulfilled () \<and>
   pendingMessageCache (fst (jobSettled q message (Rejected e) s)) = pendingMessageCache s \<and>
   snd (jobSettled q message (Rejected e) s) = Fulfilled ()"
  by (simp add: jobSettled_def promise_then_def promise_catch_def remove_def list_ex_iff)






text \<open>
  C6. Queuing a session reset message returns before anything is staged: the pending
  store, every job queue and all the rest of the state are as they were.
\<close>

theorem queue_session_reset_unchanged:
  "queue env dev (message\<lparr>cls := SessionResetMessage\<rparr>) s = s"
  by (simp add: queue_def)

text \<open>
  C7, the code at the failing input: two \<open>PubKey\<close> objects of the same key. \<open>getJobQueue\<close>
  finds no entry for the second one and makes a second queue.
\<close>

theorem getJobQueue_by_identity:
  "key \<lparr>ref = 0, key = ''05ab''\<rparr> = key \<lparr>ref = 1, key = ''05ab''\<rparr> \<and>
   (case getJobQueue \<lparr>ref = 0, key = ''05ab''\<rparr> (initial 2) of
      (qa, s1) \<Rightarrow>
        (case getJobQueue \<lparr>ref = 1, key = ''05ab''\<rparr> s1 of
           (qb, s2) \<Rightarrow> qa \<noteq> qb \<and> map snd (jobQueues s2) = [qa, qb]))"
  by (simp add: getJobQueue_def initial_def)

text \<open>
  C8, the code on every closed group message: \<open>sendToGroup\<close> passes the number \<open>5\<close> for
  the devices, \<open>sendMessageToDevices\<close> throws on spreading it, and nothing is staged.
\<close>

theorem sendToGroup_closed_group_throws:
  "sendToGroup env (message\<lparr>cls := ClosedGroupMessage\<rparr>) s =
     Inl (TypeError ''devices is not iterable'')"
  by (simp add: sendToGroup_def sendMessageToDevices_def spread_def)

text \<open>
  C9, the code on every open group message: \<open>sendToGroup\<close> returns with the state as it
  was, so nothing is staged or queued, and \<open>MessageSender.send\<close> is not called either.
\<close>

theorem sendToGroup_open_group_noop:
  "sendToGroup env (message\<lparr>cls := OpenGroupMessage\<rparr>) s = Inr s"
  by (simp add: sendToGroup_def)

section \<open>Properties of the open group identifiers\<close>

lemma ends_str: "rest \<in> set (ends (str p) (p @ rest))"
  by (induction p) simp_all

lemma ends_Seq: "t \<in> set (ends a s) \<Longrightarrow> u \<in> set (ends b t) \<Longrightarrow> u \<in> set (ends (Seq a b) s)"
  by auto

lemma repeat_class:
  "list_all (in_class rs) w \<Longrightarrow> lo \<le> length w \<Longrightarrow> length w \<le> hi \<Longrightarrow>
   rest \<in> set (repeat hi lo (ends (Cls rs)) (w @ rest))"
proof (induction w arbitrary: hi lo)
  case Nil
  then show ?case by (cases hi) simp_all
next
  case (Cons c w)
  then obtain hi' where hi: "hi = Suc hi'"
    by (cases hi) auto
  have step: "ends (Cls rs) (c # w @ rest) = [w @ rest]"
    using Cons.prems by simp
  have "rest \<in> set (repeat hi' (lo - 1) (ends (Cls rs)) (w @ rest))"
    using Cons.prems hi by (intro Cons.IH) auto
  then show ?case
    using hi step by (simp del: ends.simps)
qed

lemma regexp_test_if_match_at: "match_at r s \<Longrightarrow> regexp_test r s"
  by (cases s) simp_all

lemma indexOf_first: "c \<notin> set xs \<Longrightarrow> indexOf (xs @ c # ys) c = int (length xs)"
  by (induction xs) (auto simp: Let_def)

lemma roomIdChars_not_at: "in_class roomIdChars c \<Longrightarrow> c \<noteq> CHR ''@''"
  by (auto simp: in_class_def roomIdChars_def)

lemma slice_mid: "slice (p @ r @ c # u) (int (length p)) (Some (int (length (p @ r)))) = r"
  by (simp add: slice_def Let_def)

lemma slice_tail: "slice (p @ r @ c # u) (int (length (p @ r)) + 1) None = u"
  by (simp add: slice_def Let_def nat_add_distrib)

text \<open>
  C10, as the code has it. For a \<open>roomId\<close> of 2 to 64 characters of \<open>[0-9a-z_]\<close> and a
  \<open>serverUrl\<close> without \<open>@\<close> that the server pattern matches from its first character on,
  \<open>getOpenGroupV2ConversationId\<close> returns the identifier and does not throw, and
  \<open>getOpenGroupV2FromConversationId\<close> gives both parts back.
\<close>

theorem conversationId_roundtrip:
  fixes serverUrl roomId :: string
  assumes len: "2 \<le> length roomId" "length roomId \<le> 64"
    and chars: "list_all (in_class roomIdChars) roomId"
    and url: "match_at openGroupV2ServerUrlRegex serverUrl"
    and noat: "CHR ''@'' \<notin> set serverUrl"
  shows "getOpenGroupV2ConversationId serverUrl roomId =
           Inr (openGroupPrefix @ roomId @ ''@'' @ serverUrl) \<and>
         getOpenGroupV2FromConversationId (openGroupPrefix @ roomId @ ''@'' @ serverUrl) =
           Inr \<lparr>serverUrl = serverUrl, roomId = roomId\<rparr>"
proof -
  have room: "string_match roomId roomIdV2Regex"
  proof -
    have "[] \<in> set (repeat 64 2 (ends (Cls roomIdChars)) (roomId @ []))"
      using chars len by (intro repeat_class) auto
    then have "match_at roomIdV2Regex roomId"
      by (auto simp: roomIdV2Regex_def match_at_def)
    then show ?thesis
      unfolding string_match_def by (rule regexp_test_if_match_at)
  qed
  have srv: "string_match serverUrl openGroupV2ServerUrlRegex"
    unfolding string_match_def using url by (rule regexp_test_if_match_at)
  obtain rest where rest: "rest \<in> set (ends openGroupV2ServerUrlRegex serverUrl)"
    using url by (cases "ends openGroupV2ServerUrlRegex serverUrl") (auto simp: match_at_def)
  let ?id = "openGroupPrefix @ roomId @ ''@'' @ serverUrl"
  have a1: "roomId @ ''@'' @ serverUrl \<in> set (ends (str openGroupPrefix) ?id)"
    by (rule ends_str)
  have a2: "''@'' @ serverUrl \<in> set (ends roomIdV2Regex (roomId @ ''@'' @ serverUrl))"
    using chars len repeat_class [of roomIdChars roomId 2 64 "''@'' @ serverUrl"]
    by (simp add: roomIdV2Regex_def)
  have a3: "serverUrl \<in> set (ends (Lit CHR ''@'') (''@'' @ serverUrl))"
    by simp
  have a4: "rest \<in> set (ends (Seq protocolRegex (Seq hostnameRegex portRegex)) serverUrl)"
    using rest by (simp only: openGroupV2ServerUrlRegex_def)
  have "rest \<in> set (ends openGroupV2ConversationIdRegex ?id)"
    unfolding openGroupV2ConversationIdRegex_def
    by (rule ends_Seq [OF a1] ends_Seq [OF a2] ends_Seq [OF a3] a4)+
  then have "match_at openGroupV2ConversationIdRegex ?id"
    by (auto simp: match_at_def)
  then have is_v2: "isOpenGroupV2 ?id"
    unfolding isOpenGroupV2_def by (rule regexp_test_if_match_at)
  have "CHR ''@'' \<notin> set roomId"
    using chars roomIdChars_not_at by (auto simp: list_all_iff)
  then have no: "CHR ''@'' \<notin> set (openGroupPrefix @ roomId)"
    by (simp add: openGroupPrefix_def)
  have idx: "indexOf ?id CHR ''@'' = int (length (openGroupPrefix @ roomId))"
    using indexOf_first [OF no, of serverUrl] by simp
  have s1: "slice ?id (int (length openGroupPrefix))
              (Some (int (length (openGroupPrefix @ roomId)))) = roomId"
    using slice_mid [of openGroupPrefix roomId "CHR ''@''" serverUrl] by simp
  have s2: "slice ?id (int (length (openGroupPrefix @ roomId)) + 1) None = serverUrl"
    using slice_tail [of openGroupPrefix roomId "CHR ''@''" serverUrl] by simp
  show ?thesis
    using room srv is_v2 idx s1 s2
    by (simp add: getOpenGroupV2ConversationId_def getOpenGroupV2FromConversationId_def Let_def)
qed

text \<open>C10, witness: room \<open>main_2\<close> on \<open>https://open.getsession.org:8080\<close>.\<close>

theorem conversationId_roundtrip_witness:
  "2 \<le> length ''main_2'' \<and> length ''main_2'' \<le> 64 \<and>
   list_all (in_class roomIdChars) ''main_2'' \<and>
   match_at openGroupV2ServerUrlRegex ''https://open.getsession.org:8080'' \<and>
   CHR ''@'' \<notin> set ''https://open.getsession.org:8080'' \<and>
   getOpenGroupV2ConversationId ''https://open.getsession.org:8080'' ''main_2'' =
     Inr ''publicChat:main_2@https://open.getsession.org:8080'' \<and>
   getOpenGroupV2FromConversationId ''publicChat:main_2@https://open.getsession.org:8080'' =
     Inr \<lparr>serverUrl = ''https://open.getsession.org:8080'', roomId = ''main_2''\<rparr>"
proof -
  have h1: "2 \<le> length ''main_2''" "length ''main_2'' \<le> 64"
    by simp_all
  have h2: "list_all (in_class roomIdChars) ''main_2''"
    by code_simp
  have h3: "match_at openGroupV2ServerUrlRegex ''https://open.getsession.org:8080''"
    by code_simp
  have h4: "CHR ''@'' \<notin> set ''https://open.getsession.org:8080''"
    by simp
  show ?thesis
    using conversationId_roundtrip [OF h1 h2 h3 h4] h1 h2 h3 h4
    by (simp add: openGroupPrefix_def)
qed

text \<open>
  C10, counterexample to the claim as stated: \<open>roomId = ab\<close> and \<open>serverUrl = /a\<close>. The
  room has two characters of the class; the server pattern matches inside \<open>/a\<close> (at
  \<open>a\<close>) and \<open>/a\<close> has no \<open>@\<close>, so \<open>getOpenGroupV2ConversationId\<close> returns
  \<open>publicChat:ab@/a\<close>; the identifier pattern wants a host name right after \<open>@\<close>, so
  \<open>getOpenGroupV2FromConversationId\<close> throws on it.
\<close>

theorem conversationId_roundtrip_counterexample:
  "length ''ab'' = 2 \<and> list_all (in_class roomIdChars) ''ab'' \<and>
   string_match ''/a'' openGroupV2ServerUrlRegex \<and> CHR ''@'' \<notin> set ''/a'' \<and>
   getOpenGroupV2ConversationId ''/a'' ''ab'' = Inr ''publicChat:ab@/a'' \<and>
   getOpenGroupV2FromConversationId ''publicChat:ab@/a'' =
     Inl (Error ''Not a v2 open group convo id'')"
  by code_simp

end
